theory Spec2Isabelle
  imports Main "HOL-Library.Char_ord" "HOL-Library.List_Lexorder" "HOL-Library.Product_Lexorder"
    "HOL-Library.AList"
begin

section \<open>Python values and strings\<close>

text \<open>
  A table cell holds a Python object. The pipeline of \<^verbatim>\<open>app.py\<close> only ever tests a
  cell for being null, compares it with a string, or reads its \<^verbatim>\<open>str()\<close> text, so a cell is
  one of: \<^verbatim>\<open>None\<close>; the float \<^verbatim>\<open>nan\<close> (what \<^verbatim>\<open>pd.read_excel\<close> stores for an empty
  sheet cell and what a merge stores for an unmatched row); a string; an integer (the
  \<^verbatim>\<open>ID\<close> column); any other object (a float or a date read from the sheet), kept as the
  text \<^verbatim>\<open>str()\<close> gives for it. Strings are byte strings (UTF-8).
\<close>

datatype cell = PyNone | NaN | Str string | IntV int | Obj string

datatype error = IndexError | KeyError | ValueError | MergeError

text \<open>Sequencing of steps that may raise: the first exception ends the run.\<close>

definition bind :: "error + 'a \<Rightarrow> ('a \<Rightarrow> error + 'b) \<Rightarrow> error + 'b" where
  "bind m f = (case m of Inl e \<Rightarrow> Inl e | Inr x \<Rightarrow> f x)"

text \<open>\<^verbatim>\<open>pd.isna\<close>: both \<^verbatim>\<open>None\<close> and \<^verbatim>\<open>nan\<close> are null.\<close>

fun isna :: "cell \<Rightarrow> bool" where
  "isna PyNone = True"
| "isna NaN = True"
| "isna _ = False"

definition digit_char :: "nat \<Rightarrow> char" where
  "digit_char d = char_of (48 + d)"

fun str_nat :: "nat \<Rightarrow> string" where
  "str_nat n = (if n < 10 then [digit_char n] else str_nat (n div 10) @ [digit_char (n mod 10)])"

definition str_int :: "int \<Rightarrow> string" where
  "str_int i = (if i < 0 then CHR ''-'' # str_nat (nat (- i)) else str_nat (nat i))"

text \<open>\<^verbatim>\<open>str(x)\<close>, which is what \<^verbatim>\<open>Series.astype(str)\<close> applies to every element, nulls
  included: \<^verbatim>\<open>str(None) = 'None'\<close> and \<^verbatim>\<open>str(float('nan')) = 'nan'\<close>.\<close>

fun py_str :: "cell \<Rightarrow> string" where
  "py_str PyNone = ''None''"
| "py_str NaN = ''nan''"
| "py_str (Str s) = s"
| "py_str (IntV i) = str_int i"
| "py_str (Obj s) = s"

text \<open>\<^verbatim>\<open>str.strip()\<close> removes leading and trailing whitespace (the ASCII whitespace
  characters: tab, line feed, vertical tab, form feed, carriage return, the four
  separators 28..31 and space).\<close>

definition py_isspace :: "char \<Rightarrow> bool" where
  "py_isspace c = ((of_char c :: nat) \<in> {9, 10, 11, 12, 13, 28, 29, 30, 31, 32})"

definition py_strip :: "string \<Rightarrow> string" where
  "py_strip s = rev (dropWhile py_isspace (rev (dropWhile py_isspace s)))"

text \<open>\<^verbatim>\<open>str.lower()\<close> on the ASCII letters.\<close>

definition py_lower_char :: "char \<Rightarrow> char" where
  "py_lower_char c = (if CHR ''A'' \<le> c \<and> c \<le> CHR ''Z'' then char_of (of_char c + (32 :: nat)) else c)"

definition py_lower :: "string \<Rightarrow> string" where
  "py_lower s = map py_lower_char s"

text \<open>\<^verbatim>\<open>sep.join(vals)\<close>.\<close>

fun py_join :: "string \<Rightarrow> string list \<Rightarrow> string" where
  "py_join sep [] = []"
| "py_join sep [x] = x"
| "py_join sep (x # y # ys) = x @ sep @ py_join sep (y # ys)"

text \<open>Column-wise \<^verbatim>\<open>.astype(str)\<close> and \<^verbatim>\<open>.str.strip()\<close>.\<close>

definition astype_str :: "cell list \<Rightarrow> cell list" where
  "astype_str series = map (\<lambda>c. Str (py_str c)) series"

definition str_strip :: "cell list \<Rightarrow> cell list" where
  "str_strip series = map (\<lambda>c. case c of Str s \<Rightarrow> Str (py_strip s) | _ \<Rightarrow> NaN) series"

text \<open>Group keys are sorted ascending; numbers come before strings and a null key comes
  last. Strings compare byte by byte, which on UTF-8 is Python's code point order.\<close>

fun cell_rank :: "cell \<Rightarrow> nat \<times> int \<times> string" where
  "cell_rank (IntV i) = (0, i, [])"
| "cell_rank (Obj s) = (1, 0, s)"
| "cell_rank (Str s) = (2, 0, s)"
| "cell_rank PyNone = (3, 0, [])"
| "cell_rank NaN = (4, 0, [])"

instantiation cell :: linorder
begin
definition less_eq_cell :: "cell \<Rightarrow> cell \<Rightarrow> bool" where
  "less_eq_cell a b = (cell_rank a \<le> cell_rank b)"
definition less_cell :: "cell \<Rightarrow> cell \<Rightarrow> bool" where
  "less_cell a b = (cell_rank a < cell_rank b)"
instance
proof
  fix x y z :: cell
  show "(x < y) = (x \<le> y \<and> \<not> y \<le> x)"
    by (auto simp: less_eq_cell_def less_cell_def)
  show "x \<le> x"
    by (simp add: less_eq_cell_def)
  show "x \<le> y \<Longrightarrow> y \<le> z \<Longrightarrow> x \<le> z"
    by (auto simp: less_eq_cell_def)
  show "x \<le> y \<Longrightarrow> y \<le> x \<Longrightarrow> x = y"
    by (cases x; cases y) (auto simp: less_eq_cell_def)
  show "x \<le> y \<or> y \<le> x"
    by (auto simp: less_eq_cell_def)
qed
end

section \<open>Data frames\<close>

text \<open>
  A \<^verbatim>\<open>pandas.DataFrame\<close>: the column labels in order, and the rows in order, each row
  holding one cell per column. Labels are cells, since the labels of the pharmacology
  table are whatever the header row of the sheet holds.
\<close>

record dataframe =
  columns :: "cell list"
  rows :: "cell list list"

text \<open>Position of the first occurrence of a label.\<close>

fun index_of :: "'a \<Rightarrow> 'a list \<Rightarrow> nat option" where
  "index_of x [] = None"
| "index_of x (y # ys) = (if x = y then Some 0 else map_option Suc (index_of x ys))"

text \<open>\<^verbatim>\<open>df[c]\<close>: the values of column \<^verbatim>\<open>c\<close>; \<^verbatim>\<open>KeyError\<close> when there is none.\<close>

definition getitem :: "dataframe \<Rightarrow> cell \<Rightarrow> error + cell list" where
  "getitem df c =
     (case index_of c (columns df) of
        None \<Rightarrow> Inl KeyError
      | Some i \<Rightarrow> Inr (map (\<lambda>r. r ! i) (rows df)))"

text \<open>\<^verbatim>\<open>df[c] = vals\<close>: overwrites the column in place when the label exists, else appends
  a new last column.\<close>

definition setitem :: "dataframe \<Rightarrow> cell \<Rightarrow> cell list \<Rightarrow> dataframe" where
  "setitem df c vals =
     (case index_of c (columns df) of
        Some i \<Rightarrow> \<lparr>columns = columns df, rows = map (\<lambda>(r, v). r[i := v]) (zip (rows df) vals)\<rparr>
      | None \<Rightarrow> \<lparr>columns = columns df @ [c], rows = map (\<lambda>(r, v). r @ [v]) (zip (rows df) vals)\<rparr>)"

fun positions :: "cell list \<Rightarrow> cell list \<Rightarrow> error + nat list" where
  "positions labels [] = Inr []"
| "positions labels (c # cs) =
     (case index_of c labels of
        None \<Rightarrow> Inl KeyError
      | Some i \<Rightarrow> bind (positions labels cs) (\<lambda>js. Inr (i # js)))"

text \<open>\<^verbatim>\<open>df[[c1, ..., cn]]\<close>: the listed columns, in the listed order.\<close>

definition getitems :: "dataframe \<Rightarrow> cell list \<Rightarrow> error + dataframe" where
  "getitems df cs =
     bind (positions (columns df) cs)
       (\<lambda>js. Inr \<lparr>columns = cs, rows = map (\<lambda>r. map (\<lambda>j. r ! j) js) (rows df)\<rparr>)"

text \<open>\<^verbatim>\<open>df[mask]\<close> with a boolean mask: the rows whose mask entry is true.\<close>

definition filter_rows :: "dataframe \<Rightarrow> bool list \<Rightarrow> dataframe" where
  "filter_rows df keep = \<lparr>columns = columns df, rows = map snd (filter fst (zip keep (rows df)))\<rparr>"

text \<open>\<^verbatim>\<open>df.drop(columns=cs)\<close>: \<^verbatim>\<open>KeyError\<close> when a label of \<^verbatim>\<open>cs\<close> is not a column.\<close>

definition drop_columns :: "dataframe \<Rightarrow> cell list \<Rightarrow> error + dataframe" where
  "drop_columns df cs =
     bind (positions (columns df) cs)
       (\<lambda>_. Inr \<lparr>columns = filter (\<lambda>l. l \<notin> set cs) (columns df),
                  rows = map (\<lambda>r. map snd (filter (\<lambda>(l, v). l \<notin> set cs) (zip (columns df) r))) (rows df)\<rparr>)"

text \<open>\<^verbatim>\<open>Series.unique()\<close>: the distinct values in order of first appearance.\<close>

fun unique_from :: "'a list \<Rightarrow> 'a list \<Rightarrow> 'a list" where
  "unique_from seen [] = []"
| "unique_from seen (x # xs) =
     (if x \<in> set seen then unique_from seen xs else x # unique_from (x # seen) xs)"

definition unique :: "'a list \<Rightarrow> 'a list" where
  "unique xs = unique_from [] xs"

text \<open>\<^verbatim>\<open>pd.DataFrame(dicts)\<close> for a list of dictionaries: the columns are the keys in
  order of first appearance; a key a dictionary lacks reads as \<^verbatim>\<open>nan\<close>.\<close>

definition DataFrame :: "(string \<times> cell) list list \<Rightarrow> dataframe" where
  "DataFrame dicts =
     (let keys = unique (concat (map (map fst) dicts))
      in \<lparr>columns = map Str keys,
          rows = map (\<lambda>d. map (\<lambda>k. case map_of d k of Some v \<Rightarrow> v | None \<Rightarrow> NaN) keys) dicts\<rparr>)"

text \<open>\<^verbatim>\<open>pd.read_excel(file, header=None)\<close>: the grid of the sheet's cells with the labels
  0, 1, ...; every row is filled up with \<^verbatim>\<open>nan\<close> to the width of the widest row (an empty
  sheet cell is \<^verbatim>\<open>nan\<close>).\<close>

definition read_excel :: "cell list list \<Rightarrow> dataframe" where
  "read_excel sheet =
     (let w = fold max (map length sheet) 0
      in \<lparr>columns = map (\<lambda>j. IntV (int j)) [0..<w],
          rows = map (\<lambda>r. r @ replicate (w - length r) NaN) sheet\<rparr>)"

subsection \<open>Merge\<close>

text \<open>Merge keys: equal values match, and a null key matches a null key.\<close>

definition key_match :: "cell \<Rightarrow> cell \<Rightarrow> bool" where
  "key_match a b = ((isna a \<and> isna b) \<or> a = b)"

definition drop_nth :: "nat \<Rightarrow> 'a list \<Rightarrow> 'a list" where
  "drop_nth i xs = take i xs @ drop (Suc i) xs"

text \<open>\<^verbatim>\<open>Index.duplicated()\<close>: true at every occurrence of a value but its first.\<close>

fun duplicated_from :: "'a list \<Rightarrow> 'a list \<Rightarrow> bool list" where
  "duplicated_from seen [] = []"
| "duplicated_from seen (x # xs) = (x \<in> set seen) # duplicated_from (x # seen) xs"

definition duplicated :: "'a list \<Rightarrow> bool list" where
  "duplicated xs = duplicated_from [] xs"

definition renamer :: "cell list \<Rightarrow> string \<Rightarrow> cell \<Rightarrow> cell" where
  "renamer to_rename suffix x = (if x \<in> set to_rename then Str (py_str x @ suffix) else x)"

definition new_dups :: "cell list \<Rightarrow> cell list \<Rightarrow> cell list" where
  "new_dups labels orig =
     map fst (filter (\<lambda>(l, d, d0). d \<and> \<not> d0) (zip labels (zip (duplicated labels) (duplicated orig))))"

text \<open>The labels of a merge result: a label that both sides have gets the side's suffix;
  it is an error when that creates a label the side already has.\<close>

definition items_overlap_with_suffix ::
  "cell list \<Rightarrow> cell list \<Rightarrow> string \<times> string \<Rightarrow> error + (cell list \<times> cell list)" where
  "items_overlap_with_suffix left right suffixes =
     (let to_rename = filter (\<lambda>x. x \<in> set right) left
      in if to_rename = [] then Inr (left, right)
         else if fst suffixes = [] \<and> snd suffixes = [] then Inl ValueError
         else
           (let llabels = map (renamer to_rename (fst suffixes)) left;
                rlabels = map (renamer to_rename (snd suffixes)) right;
                dups = new_dups llabels left @ new_dups rlabels right
            in if dups \<noteq> [] then Inl MergeError else Inr (llabels, rlabels)))"

text \<open>\<^verbatim>\<open>left.merge(right, on=key, how="left", suffixes=...)\<close>: every left row, in order,
  once per right row with a matching key (in the right table's order), or once with
  \<^verbatim>\<open>nan\<close> in the right columns when there is no match. The right table's key column is
  not repeated.\<close>

definition merge_left :: "dataframe \<Rightarrow> dataframe \<Rightarrow> cell \<Rightarrow> string \<times> string \<Rightarrow> error + dataframe" where
  "merge_left left right on suffixes =
     (case index_of on (columns left) of
        None \<Rightarrow> Inl KeyError
      | Some li \<Rightarrow>
         (case index_of on (columns right) of
            None \<Rightarrow> Inl KeyError
          | Some ri \<Rightarrow>
             bind (items_overlap_with_suffix (columns left) (drop_nth ri (columns right)) suffixes)
               (\<lambda>(llabels, rlabels).
                  Inr \<lparr>columns = llabels @ rlabels,
                       rows = concat (map (\<lambda>l.
                                case filter (\<lambda>r. key_match (l ! li) (r ! ri)) (rows right) of
                                  [] \<Rightarrow> [l @ replicate (length rlabels) NaN]
                                | ms \<Rightarrow> map (\<lambda>r. l @ drop_nth ri r) ms) (rows left))\<rparr>)))"

subsection \<open>Group by and aggregate\<close>

text \<open>With \<^verbatim>\<open>dropna=False\<close> the null keys form one group, labelled \<^verbatim>\<open>nan\<close>.\<close>

definition group_key :: "cell \<Rightarrow> cell" where
  "group_key c = (if isna c then NaN else c)"

text \<open>\<^verbatim>\<open>df.groupby(by, dropna=False).agg(func).reset_index()\<close>: one row per distinct key,
  the keys sorted ascending (\<^verbatim>\<open>groupby\<close> sorts unless told \<^verbatim>\<open>sort=False\<close>); the key column
  comes first, then every other column in its order, holding \<^verbatim>\<open>func\<close> of the group's values
  of that column in row order.\<close>

definition groupby_agg :: "dataframe \<Rightarrow> cell \<Rightarrow> (cell list \<Rightarrow> cell) \<Rightarrow> error + dataframe" where
  "groupby_agg df by func =
     (case index_of by (columns df) of
        None \<Rightarrow> Inl KeyError
      | Some i \<Rightarrow>
         (let keys = sorted_list_of_set (set (map (\<lambda>r. group_key (r ! i)) (rows df)));
              others = drop_nth i [0..<length (columns df)]
          in Inr \<lparr>columns = by # drop_nth i (columns df),
                  rows = map (\<lambda>k. k # map (\<lambda>j. func (map (\<lambda>r. r ! j)
                                (filter (\<lambda>r. group_key (r ! i) = k) (rows df)))) others) keys\<rparr>))"

section \<open>The pipeline of \<^verbatim>\<open>app.py\<close>\<close>

subsection \<open>Structure records\<close>

text \<open>
  A parsed molecule as the pipeline reads it: its SDF properties (\<^verbatim>\<open>GetPropNames\<close>,
  \<^verbatim>\<open>HasProp\<close>, \<^verbatim>\<open>GetProp\<close>) and the result of \<^verbatim>\<open>Chem.MolToSmiles\<close>, \<open>None\<close> when that
  call raises. An uploaded file is its name and the records the supplier yields, \<open>None\<close>
  for a record that does not parse.
\<close>

record mol =
  props :: "(string \<times> string) list"
  smiles :: "string option"

definition GetPropNames :: "mol \<Rightarrow> string list" where
  "GetPropNames m = map fst (props m)"

text \<open>\<^verbatim>\<open>m.GetProp(p) if m.HasProp(p) else None\<close>\<close>

definition prop_or_None :: "mol \<Rightarrow> string \<Rightarrow> cell" where
  "prop_or_None m p = (case map_of (props m) p of Some v \<Rightarrow> Str v | None \<Rightarrow> PyNone)"

text \<open>Lines 137-145: the molecules of all files in upload order, each with the name of
  its file (\<^verbatim>\<open>zip(all_mols, file_tags)\<close>).\<close>

definition all_mols :: "(string \<times> mol option list) list \<Rightarrow> (mol \<times> string) list" where
  "all_mols uploaded_sdf_files =
     concat (map (\<lambda>(name, suppl). map (\<lambda>m. (m, name)) [m. Some m \<leftarrow> suppl]) uploaded_sdf_files)"

text \<open>Line 151: \<^verbatim>\<open>sorted({p for m in all_mols for p in m.GetPropNames()})\<close>\<close>

definition all_props :: "mol list \<Rightarrow> string list" where
  "all_props mols = sorted_list_of_set (set (concat (map GetPropNames mols)))"

text \<open>Lines 156-166: the dictionary of one record. Assigning to a key that exists
  overwrites its value in place, any other key is appended.\<close>

definition sdf_row :: "string list \<Rightarrow> nat \<Rightarrow> mol \<Rightarrow> string \<Rightarrow> (string \<times> cell) list" where
  "sdf_row ps idx m src_name =
     (let row = [(''ID'', IntV (int idx)), (''SourceFile'', Str src_name)];
          row = AList.update ''SMILES'' (case smiles m of Some s \<Rightarrow> Str s | None \<Rightarrow> PyNone) row
      in fold (\<lambda>p row. AList.update p (prop_or_None m p) row) ps row)"

definition sdf_rows :: "(mol \<times> string) list \<Rightarrow> (string \<times> cell) list list" where
  "sdf_rows mols =
     map (\<lambda>(idx, m, src_name). sdf_row (all_props (map fst mols)) idx m src_name)
       (zip [1..<Suc (length mols)] mols)"

text \<open>Lines 170-179: the record table with its \<^verbatim>\<open>cas_norm\<close> column. The test
  \<^verbatim>\<open>"cas.rn" in sdf_df.columns\<close> is the case distinction on \<open>getitem\<close>.\<close>

definition sdf_df :: "(mol \<times> string) list \<Rightarrow> dataframe" where
  "sdf_df mols =
     (let df = DataFrame (sdf_rows mols)
      in case getitem df (Str ''cas.rn'') of
           Inr cas \<Rightarrow> setitem df (Str ''cas_norm'') (str_strip (astype_str cas))
         | Inl _ \<Rightarrow> setitem df (Str ''cas_norm'') (replicate (length (rows df)) PyNone))"

subsection \<open>Pharmacology sheet\<close>

text \<open>Lines 47-63. \<^verbatim>\<open>raw.iloc[:, 0]\<close> raises \<^verbatim>\<open>IndexError\<close> on a sheet with no column, and
  \<^verbatim>\<open>raw.index[...][0]\<close> raises \<^verbatim>\<open>IndexError\<close> when no row has the label in its first
  cell.\<close>

definition load_pharmacology_excel :: "cell list list \<Rightarrow> error + dataframe" where
  "load_pharmacology_excel file =
     (let raw = read_excel file
      in if columns raw = [] then Inl IndexError
         else
           (case filter (\<lambda>i. (rows raw ! i) ! 0 = Str ''Ligand CAS RN'') [0..<length (rows raw)] of
              [] \<Rightarrow> Inl IndexError
            | header_row_idx # _ \<Rightarrow>
                Inr \<lparr>columns = rows raw ! header_row_idx,
                     rows = drop (header_row_idx + 1) (rows raw)\<rparr>))"

text \<open>Lines 109-111.\<close>

definition agg_unique :: "cell list \<Rightarrow> cell" where
  "agg_unique series =
     (let vals = unique (map py_str (filter (\<lambda>c. \<not> isna c) series))
      in if length vals > 0 then Str (py_join '' | '' vals) else PyNone)"

text \<open>Lines 99-119.\<close>

definition aggregate_pharmacology_by_cas :: "dataframe \<Rightarrow> error + dataframe" where
  "aggregate_pharmacology_by_cas df =
     bind (if Str ''cas_norm'' \<notin> set (columns df)
           then bind (getitem df (Str ''Ligand CAS RN''))
                  (\<lambda>cas. Inr (setitem df (Str ''cas_norm'') (str_strip (astype_str cas))))
           else Inr df)
       (\<lambda>df'. groupby_agg df' (Str ''cas_norm'') agg_unique)"

text \<open>Lines 186-189: the pharmacology table with its \<^verbatim>\<open>cas_norm\<close> column. Nothing
  catches the exception of line 186 here.\<close>

definition pharm_df :: "cell list list \<Rightarrow> error + dataframe" where
  "pharm_df uploaded_pharm_file =
     bind (load_pharmacology_excel uploaded_pharm_file)
       (\<lambda>df. bind (getitem df (Str ''Ligand CAS RN''))
          (\<lambda>cas. Inr (setitem df (Str ''cas_norm'') (str_strip (astype_str cas)))))"

subsection \<open>The two tables\<close>

text \<open>Lines 192-199.\<close>

definition merged_full_df :: "dataframe \<Rightarrow> dataframe \<Rightarrow> error + dataframe" where
  "merged_full_df sdf pharm =
     bind (aggregate_pharmacology_by_cas pharm)
       (\<lambda>pharm_agg. merge_left sdf pharm_agg (Str ''cas_norm'') ([], ''_pharm''))"

definition base_cols :: "cell list" where
  "base_cols = [Str ''SMILES'', Str ''cas.index.name'', Str ''cas.rn'', Str ''cas_norm'']"

text \<open>Lines 220-222.\<close>

definition add_base_cols :: "dataframe \<Rightarrow> dataframe" where
  "add_base_cols sdf =
     fold (\<lambda>col df. if col \<notin> set (columns df)
                     then setitem df col (replicate (length (rows df)) PyNone) else df)
       base_cols sdf"

text \<open>Lines 212-215: the rows whose \<^verbatim>\<open>Parameter\<close> is the selected one, letter case
  aside.\<close>

definition pharm_param :: "dataframe \<Rightarrow> string \<Rightarrow> error + dataframe" where
  "pharm_param pharm selected_param =
     bind (getitem pharm (Str ''Parameter''))
       (\<lambda>param_series.
          Inr (filter_rows pharm
                 (map (\<lambda>c. py_lower (py_str c) = py_lower selected_param) param_series)))"

text \<open>Lines 219-237, for a non-empty \<^verbatim>\<open>pharm_param\<close> (here \<open>pp\<close>). The merge has the default suffixes
  \<^verbatim>\<open>("_x", "_y")\<close>.\<close>

definition join_param :: "dataframe \<Rightarrow> dataframe \<Rightarrow> error + dataframe" where
  "join_param sdf pp =
     bind (getitems (add_base_cols sdf) base_cols)
       (\<lambda>ligands. bind (getitems pp [Str ''cas_norm'', Str ''Parameter'', Str ''Value''])
          (\<lambda>measurements. bind (merge_left ligands measurements (Str ''cas_norm'') (''_x'', ''_y''))
             (\<lambda>joined. bind (drop_columns joined [Str ''cas_norm''])
                (\<lambda>export. bind (getitem export (Str ''Parameter''))
                   (\<lambda>ps. bind (getitem export (Str ''Value''))
                      (\<lambda>vs. Inr (filter_rows export
                                    (map (\<lambda>(p, v). \<not> isna p \<and> \<not> isna v) (zip ps vs)))))))))"

text \<open>Lines 182 and 210-251: \<open>None\<close> when the parameter-focused table is not produced.\<close>

definition param_df_export :: "dataframe \<Rightarrow> dataframe \<Rightarrow> string option \<Rightarrow> error + dataframe option" where
  "param_df_export sdf pharm selected_param =
     (case selected_param of
        None \<Rightarrow> Inr None
      | Some sel \<Rightarrow>
          if sel \<noteq> [] \<and> Str ''Parameter'' \<in> set (columns pharm) \<and> Str ''Value'' \<in> set (columns pharm)
          then bind (pharm_param pharm sel)
                 (\<lambda>pp. if rows pp \<noteq> []
                        then bind (join_param sdf pp) (\<lambda>t. Inr (Some t))
                        else Inr None)
          else Inr None)"

datatype outcome = NoFiles | NoValidMolecules | Tables dataframe "dataframe option"

text \<open>Lines 123-284: what a run ends with. \<open>Inl\<close> is an exception that \<^verbatim>\<open>app.py\<close> does not
  catch; \<open>Tables\<close> are the full merged table and the parameter-focused table.\<close>

definition main_logic ::
  "(string \<times> mol option list) list \<Rightarrow> cell list list option \<Rightarrow> string option \<Rightarrow> error + outcome" where
  "main_logic uploaded_sdf_files uploaded_pharm_file selected_param =
     (if uploaded_sdf_files = [] then Inr NoFiles
      else if all_mols uploaded_sdf_files = [] then Inr NoValidMolecules
      else
        (let sdf = sdf_df (all_mols uploaded_sdf_files)
         in case uploaded_pharm_file of
              None \<Rightarrow> Inr (Tables sdf None)
            | Some file \<Rightarrow>
                bind (pharm_df file)
                  (\<lambda>pharm. bind (merged_full_df sdf pharm)
                     (\<lambda>full. bind (param_df_export sdf pharm selected_param)
                        (\<lambda>export. Inr (Tables full export))))))"

section \<open>The specification's wording, and example inputs\<close>

text \<open>The claim about aggregation, in the specification's words: an element of the
  sequence survives exactly at its first occurrence.\<close>

definition first_occurrences :: "'a list \<Rightarrow> 'a list" where
  "first_occurrences xs =
     map (\<lambda>i. xs ! i) (filter (\<lambda>i. xs ! i \<notin> set (take i xs)) [0..<length xs])"

text \<open>Drop the nulls, cast to string, keep each value at its first occurrence, join with
  \<^verbatim>\<open>" | "\<close>; null when nothing is left.\<close>

definition spec_aggregate :: "cell list \<Rightarrow> cell" where
  "spec_aggregate vs =
     (let survivors = first_occurrences (map py_str (filter (\<lambda>v. \<not> isna v) vs))
      in if survivors = [] then PyNone else Str (py_join '' | '' survivors))"

text \<open>Every row of a frame has one cell per column.\<close>

definition rectangular :: "dataframe \<Rightarrow> bool" where
  "rectangular df = list_all (\<lambda>r. length r = length (columns df)) (rows df)"

definition ex_pharm :: dataframe where
  "ex_pharm = \<lparr>columns = [Str ''Ligand CAS RN'', Str ''Value'', Str ''cas_norm''],
     rows = [[Str ''64-17-5'', Str ''7'', Str ''64-17-5''],
             [Str ''50-00-0 '', Str ''5'', Str ''50-00-0''],
             [Str ''50-00-0'', Str ''5'', Str ''50-00-0''],
             [Str ''50-00-0'', Str ''7'', Str ''50-00-0''],
             [Str ''50-00-0'', NaN, Str ''50-00-0'']]\<rparr>"

definition ex_agg :: dataframe where
  "ex_agg = \<lparr>columns = [Str ''cas_norm'', Str ''Ligand CAS RN'', Str ''Value''],
     rows = [[Str ''50-00-0'', Str ''50-00-0  | 50-00-0'', Str ''5 | 7''],
             [Str ''64-17-5'', Str ''64-17-5'', Str ''7'']]\<rparr>"

text \<open>The join key of an identifier cell: \<^verbatim>\<open>.astype(str).str.strip()\<close> on one cell.\<close>

definition cas_norm_of :: "cell \<Rightarrow> string" where
  "cas_norm_of c = py_strip (py_str c)"

text \<open>Line 192: the aggregated pharmacology table of a sheet.\<close>

definition pharm_agg :: "cell list list \<Rightarrow> error + dataframe" where
  "pharm_agg file = bind (pharm_df file) aggregate_pharmacology_by_cas"

text \<open>The join keys of the pharmacology rows in row order, and the join keys of the
  groups of the aggregated table in the order the groups are emitted.\<close>

definition join_keys :: "cell list list \<Rightarrow> error + cell list" where
  "join_keys file = bind (pharm_df file) (\<lambda>pharm. getitem pharm (Str ''cas_norm''))"

definition group_keys :: "cell list list \<Rightarrow> error + cell list" where
  "group_keys file = bind (pharm_agg file) (\<lambda>agg. getitem agg (Str ''cas_norm''))"

text \<open>An upload: one file with a record for formaldehyde, a record that does not parse,
  and a record without a \<^verbatim>\<open>cas.rn\<close> property; a sheet whose header is its second row.\<close>

definition ex_files :: "(string \<times> mol option list) list" where
  "ex_files =
     [(''ligands.sdf'',
       [Some \<lparr>props = [(''cas.rn'', ''50-00-0''), (''name'', ''Formaldehyde'')], smiles = Some ''C=O''\<rparr>,
        None,
        Some \<lparr>props = [(''name'', ''unknown'')], smiles = None\<rparr>])]"

definition ex_sheet :: "cell list list" where
  "ex_sheet =
     [[Str ''Ligand Pharmacology Data''],
      [Str ''Ligand CAS RN'', Str ''Parameter'', Str ''Value'', Str ''name''],
      [Str ''64-17-5'', Str ''IC50'', Str ''7'', NaN],
      [Str ''50-00-0'', Str ''IC50'', Str ''5'', Str ''x''],
      [Str '' 50-00-0'', Str ''ic50'', NaN, Str ''x''],
      [NaN, Str ''IC50'', Str ''9'', NaN]]"

definition ex_sheet_no_header :: "cell list list" where
  "ex_sheet_no_header = [[Str ''CAS'', Str ''Parameter''], [Str ''50-00-0'', Str ''IC50'']]"

definition ex_sheet_agg :: dataframe where
  "ex_sheet_agg =
     \<lparr>columns = [Str ''cas_norm'', Str ''Ligand CAS RN'', Str ''Parameter'', Str ''Value'', Str ''name''],
      rows = [[Str ''50-00-0'', Str ''50-00-0 |  50-00-0'', Str ''IC50 | ic50'', Str ''5'', Str ''x''],
              [Str ''64-17-5'', Str ''64-17-5'', Str ''IC50'', Str ''7'', PyNone],
              [Str ''nan'', PyNone, Str ''IC50'', Str ''9'', PyNone]]\<rparr>"

section \<open>Auxiliary facts\<close>

subsection \<open>Sequencing and frames\<close>

lemma bind_Inr_iff: "bind m f = Inr y \<longleftrightarrow> (\<exists>x. m = Inr x \<and> f x = Inr y)"
  by (cases m) (simp_all add: bind_def)

lemma bind_Inr [simp]: "bind (Inr x) f = f x"
  by (simp add: bind_def)

lemma bind_Inl [simp]: "bind (Inl e) f = Inl e"
  by (simp add: bind_def)

lemma index_of_Some:
  "index_of x xs = Some i \<Longrightarrow> i < length xs \<and> xs ! i = x \<and> x \<notin> set (take i xs)"
proof (induction xs arbitrary: i)
  case Nil
  then show ?case by simp
next
  case (Cons y ys)
  then show ?case by (cases i) (auto split: if_splits)
qed

lemma index_of_None_iff: "index_of x xs = None \<longleftrightarrow> x \<notin> set xs"
  by (induction xs) auto

lemma index_of_Some_mem: "index_of x xs = Some i \<Longrightarrow> x \<in> set xs"
  using index_of_None_iff [of x xs] by auto

lemma index_of_append_new: "x \<notin> set xs \<Longrightarrow> index_of x (xs @ [x]) = Some (length xs)"
  by (induction xs) auto

lemma drop_nth_remove1: "index_of x xs = Some i \<Longrightarrow> drop_nth i xs = remove1 x xs"
proof (induction xs arbitrary: i)
  case Nil
  then show ?case by simp
next
  case (Cons y ys)
  then show ?case by (cases i) (auto simp: drop_nth_def split: if_splits)
qed

lemma getitem_Inr:
  "getitem df c = Inr vs \<Longrightarrow> \<exists>i. index_of c (columns df) = Some i \<and> vs = map (\<lambda>r. r ! i) (rows df)"
  by (auto simp: getitem_def split: option.splits)

lemma getitem_in_columns: "c \<in> set (columns df) \<Longrightarrow> \<exists>vs. getitem df c = Inr vs"
  by (cases "index_of c (columns df)") (auto simp: getitem_def index_of_None_iff)

lemma length_getitem: "getitem df c = Inr vs \<Longrightarrow> length vs = length (rows df)"
  by (auto dest: getitem_Inr)

lemma columns_setitem:
  "columns (setitem df c vals) = (if c \<in> set (columns df) then columns df else columns df @ [c])"
  by (cases "index_of c (columns df)") (auto simp: setitem_def index_of_None_iff[symmetric])

lemma length_rows_setitem:
  "length vals = length (rows df) \<Longrightarrow> length (rows (setitem df c vals)) = length (rows df)"
  by (auto simp: setitem_def split: option.splits)

lemma rectangular_setitem: "rectangular df \<Longrightarrow> rectangular (setitem df c vals)"
  by (auto simp: rectangular_def setitem_def list_all_iff split: option.splits dest!: set_zip_leftD)

lemma getitem_setitem:
  assumes "rectangular df" "length vals = length (rows df)"
  shows "getitem (setitem df c vals) c = Inr vals"
proof (cases "index_of c (columns df)")
  case None
  then have "c \<notin> set (columns df)" by (simp add: index_of_None_iff)
  then have idx: "index_of c (columns df @ [c]) = Some (length (columns df))"
    by (rule index_of_append_new)
  have "map (\<lambda>r. r ! length (columns df)) (map (\<lambda>(r, v). r @ [v]) (zip (rows df) vals)) = vals"
    using assms
    by (intro nth_equalityI) (auto simp: rectangular_def list_all_iff nth_append)
  then show ?thesis using None idx by (simp add: getitem_def setitem_def)
next
  case (Some i)
  then have i: "i < length (columns df)" by (auto dest: index_of_Some)
  have "map (\<lambda>r. r ! i) (map (\<lambda>(r, v). r[i := v]) (zip (rows df) vals)) = vals"
    using assms i
    by (intro nth_equalityI) (auto simp: rectangular_def list_all_iff)
  then show ?thesis using Some by (simp add: getitem_def setitem_def)
qed

subsection \<open>Distinct values in order of appearance\<close>

lemma unique_from_nth:
  "unique_from seen xs =
     map (\<lambda>i. xs ! i) (filter (\<lambda>i. xs ! i \<notin> set seen \<union> set (take i xs)) [0..<length xs])"
proof (induction xs arbitrary: seen)
  case Nil
  then show ?case by simp
next
  case (Cons x xs)
  have upt: "[0..<length (x # xs)] = 0 # map Suc [0..<length xs]"
    by (simp add: upt_conv_Cons map_Suc_upt del: upt_Suc)
  have eq: "filter (\<lambda>i. xs ! i \<notin> set (x # seen) \<union> set (take i xs)) [0..<length xs] =
            filter (\<lambda>i. xs ! i \<notin> set seen \<union> set (take (Suc i) (x # xs))) [0..<length xs]"
    by (rule filter_cong) auto
  have eq': "x \<in> set seen \<Longrightarrow>
            filter (\<lambda>i. xs ! i \<notin> set seen \<union> set (take i xs)) [0..<length xs] =
            filter (\<lambda>i. xs ! i \<notin> set seen \<union> set (take (Suc i) (x # xs))) [0..<length xs]"
    by (rule filter_cong) auto
  show ?case
  proof (cases "x \<in> set seen")
    case True
    then show ?thesis
      unfolding upt using eq'[OF True] by (simp add: Cons.IH filter_map comp_def conj_ac)
  next
    case False
    then show ?thesis
      unfolding upt using eq by (simp add: Cons.IH filter_map comp_def conj_ac)
  qed
qed

lemma unique_first_occurrences: "unique xs = first_occurrences xs"
  by (simp add: unique_def first_occurrences_def unique_from_nth)

lemma set_unique_from: "set (unique_from seen xs) = set xs - set seen"
  by (induction xs arbitrary: seen) auto

lemma distinct_unique_from: "distinct (unique_from seen xs)"
  by (induction xs arbitrary: seen) (auto simp: set_unique_from)

lemma unique_Nil_iff: "unique xs = [] \<longleftrightarrow> xs = []"
  using set_unique_from[of "[]" xs] by (auto simp: unique_def)

lemma agg_unique_spec: "agg_unique vs = spec_aggregate vs"
  by (simp add: agg_unique_def spec_aggregate_def unique_first_occurrences Let_def)

lemma agg_unique_null: "isna (agg_unique vs) \<longleftrightarrow> filter (\<lambda>c. \<not> isna c) vs = []"
  by (simp add: agg_unique_def Let_def unique_Nil_iff)

subsection \<open>The pharmacology table\<close>

lemma fold_max_ge: "r \<in> set xs \<Longrightarrow> (r::nat) \<le> fold max xs a"
  by (metis List.finite_set Max.set_eq_fold Max_ge list.set_intros(2))

lemma rectangular_read_excel: "rectangular (read_excel sheet)"
proof -
  have "length r \<le> fold max (map length sheet) 0" if "r \<in> set sheet" for r
    using that by (intro fold_max_ge) simp
  then show ?thesis
    by (auto simp: rectangular_def read_excel_def Let_def list_all_iff)
qed

lemma load_pharmacology_excel_Inr:
  assumes "load_pharmacology_excel file = Inr df"
  shows "rectangular df \<and> index_of (Str ''Ligand CAS RN'') (columns df) = Some 0"
proof -
  let ?raw = "read_excel file"
  let ?hits = "filter (\<lambda>i. (rows ?raw ! i) ! 0 = Str ''Ligand CAS RN'') [0..<length (rows ?raw)]"
  from assms have ne: "columns ?raw \<noteq> []"
    by (auto simp: load_pharmacology_excel_def Let_def split: if_splits)
  from assms ne obtain h hs where hits: "?hits = h # hs"
    and df: "df = \<lparr>columns = rows ?raw ! h, rows = drop (h + 1) (rows ?raw)\<rparr>"
    by (auto simp: load_pharmacology_excel_def Let_def split: list.splits)
  have "h \<in> set ?hits" by (simp add: hits)
  then have h: "h < length (rows ?raw)" and cell: "(rows ?raw ! h) ! 0 = Str ''Ligand CAS RN''"
    by auto
  have rect: "list_all (\<lambda>r. length r = length (columns ?raw)) (rows ?raw)"
    using rectangular_read_excel[of "file"] by (simp add: rectangular_def)
  then have len: "length (rows ?raw ! h) = length (columns ?raw)"
    using h by (simp add: list_all_length)
  with ne cell obtain tl where hd: "rows ?raw ! h = Str ''Ligand CAS RN'' # tl"
    by (cases "rows ?raw ! h") auto
  have "rectangular df"
    using rect len by (auto simp: df rectangular_def list_all_iff dest: in_set_dropD)
  moreover have "index_of (Str ''Ligand CAS RN'') (columns df) = Some 0"
    by (simp add: df hd)
  ultimately show ?thesis by simp
qed

lemma normalise_column: "str_strip (astype_str ids) = map (\<lambda>c. Str (cas_norm_of c)) ids"
  by (simp add: str_strip_def astype_str_def cas_norm_of_def)

lemma index_of_append_other: "c' \<noteq> c \<Longrightarrow> index_of c' (xs @ [c]) = index_of c' xs"
  by (induction xs) auto

lemma getitem_setitem_other:
  assumes "c' \<noteq> c" and "length vals = length (rows df)" and "rectangular df"
  shows "getitem (setitem df c vals) c' = getitem df c'"
proof (cases "index_of c (columns df)")
  case None
  show ?thesis
  proof (cases "index_of c' (columns df)")
    case n: None
    then show ?thesis using None assms(1)
      by (simp add: getitem_def setitem_def index_of_append_other)
  next
    case (Some j)
    then have j: "j < length (columns df)" by (auto dest: index_of_Some)
    have "map (\<lambda>r. r ! j) (map (\<lambda>(r, v). r @ [v]) (zip (rows df) vals)) = map (\<lambda>r. r ! j) (rows df)"
      using assms j
      by (intro nth_equalityI) (auto simp: rectangular_def list_all_iff nth_append)
    then show ?thesis using None Some assms(1)
      by (simp add: getitem_def setitem_def index_of_append_other)
  qed
next
  case (Some i)
  show ?thesis
  proof (cases "index_of c' (columns df)")
    case None
    then show ?thesis using Some by (simp add: getitem_def setitem_def)
  next
    case j: (Some j)
    have "i \<noteq> j" using Some j assms(1) by (auto dest!: index_of_Some)
    then have "map (\<lambda>r. r ! j) (map (\<lambda>(r, v). r[i := v]) (zip (rows df) vals)) = map (\<lambda>r. r ! j) (rows df)"
      using assms
      by (intro nth_equalityI) auto
    then show ?thesis using Some j by (simp add: getitem_def setitem_def)
  qed
qed

lemma pharm_df_Inr:
  assumes "pharm_df file = Inr pharm"
  shows "\<exists>df ids. load_pharmacology_excel file = Inr df
           \<and> getitem df (Str ''Ligand CAS RN'') = Inr ids
           \<and> pharm = setitem df (Str ''cas_norm'') (map (\<lambda>c. Str (cas_norm_of c)) ids)
           \<and> rectangular pharm
           \<and> getitem pharm (Str ''Ligand CAS RN'') = Inr ids
           \<and> getitem pharm (Str ''cas_norm'') = Inr (map (\<lambda>c. Str (cas_norm_of c)) ids)"
proof -
  from assms obtain df ids where load: "load_pharmacology_excel file = Inr df"
    and ids: "getitem df (Str ''Ligand CAS RN'') = Inr ids"
    and pharm: "pharm = setitem df (Str ''cas_norm'') (map (\<lambda>c. Str (cas_norm_of c)) ids)"
    by (auto simp: pharm_df_def bind_Inr_iff normalise_column)
  have rect: "rectangular df"
    using load by (simp add: load_pharmacology_excel_Inr)
  have len: "length (map (\<lambda>c. Str (cas_norm_of c)) ids) = length (rows df)"
    using ids by (simp add: length_getitem)
  have "getitem pharm (Str ''Ligand CAS RN'') = Inr ids"
    unfolding pharm using getitem_setitem_other[OF _ len rect, of "Str ''Ligand CAS RN''" "Str ''cas_norm''"] ids
    by simp
  moreover have "getitem pharm (Str ''cas_norm'') = Inr (map (\<lambda>c. Str (cas_norm_of c)) ids)"
    unfolding pharm by (rule getitem_setitem[OF rect len])
  moreover have "rectangular pharm"
    unfolding pharm by (rule rectangular_setitem[OF rect])
  ultimately show ?thesis using load ids pharm by blast
qed

lemma load_without_header:
  assumes "list_all (\<lambda>r. r = [] \<or> hd r \<noteq> Str ''Ligand CAS RN'') sheet"
  shows "load_pharmacology_excel sheet = Inl IndexError"
proof (cases "columns (read_excel sheet) = []")
  case True
  then show ?thesis
    by (simp add: load_pharmacology_excel_def Let_def)
next
  case False
  let ?w = "fold max (map length sheet) 0"
  from False have w: "?w \<noteq> 0"
    by (auto simp: read_excel_def Let_def)
  have "(sheet ! i @ replicate (?w - length (sheet ! i)) NaN) ! 0 \<noteq> Str ''Ligand CAS RN''"
    if "i < length sheet" for i
  proof (cases "sheet ! i")
    case Nil
    with w show ?thesis by (cases "?w") simp_all
  next
    case (Cons c cs)
    with assms that have "c \<noteq> Str ''Ligand CAS RN''"
      by (auto simp: list_all_length)
    with Cons show ?thesis by simp
  qed
  then have "filter (\<lambda>i. (rows (read_excel sheet) ! i) ! 0 = Str ''Ligand CAS RN'')
               [0..<length (rows (read_excel sheet))] = []"
    by (auto simp: read_excel_def Let_def filter_empty_conv)
  then show ?thesis
    by (simp add: load_pharmacology_excel_def Let_def)
qed

subsection \<open>Grouping\<close>

lemma groupby_agg_Inr:
  assumes "groupby_agg df by f = Inr agg"
  shows "\<exists>i. index_of by (columns df) = Some i
           \<and> columns agg = by # remove1 by (columns df)
           \<and> getitem agg by = Inr (sorted_list_of_set (set (map (\<lambda>r. group_key (r ! i)) (rows df))))
           \<and> length (rows agg) = length (sorted_list_of_set (set (map (\<lambda>r. group_key (r ! i)) (rows df))))"
proof -
  from assms obtain i where i: "index_of by (columns df) = Some i"
    by (cases "index_of by (columns df)") (auto simp: groupby_agg_def)
  let ?keys = "sorted_list_of_set (set (map (\<lambda>r. group_key (r ! i)) (rows df)))"
  from assms i have agg: "agg = \<lparr>columns = by # drop_nth i (columns df),
      rows = map (\<lambda>k. k # map (\<lambda>j. f (map (\<lambda>r. r ! j) (filter (\<lambda>r. group_key (r ! i) = k) (rows df))))
                          (drop_nth i [0..<length (columns df)])) ?keys\<rparr>"
    by (simp add: groupby_agg_def Let_def)
  have "columns agg = by # remove1 by (columns df)"
    by (simp add: agg drop_nth_remove1[OF i])
  moreover have "getitem agg by = Inr ?keys"
    by (simp add: agg getitem_def comp_def)
  moreover have "length (rows agg) = length ?keys"
    by (simp add: agg)
  ultimately show ?thesis using i by blast
qed

lemma Str_le_iff: "Str a \<le> Str b \<longleftrightarrow> a \<le> b"
  by (simp add: less_eq_cell_def)

lemma sorted_list_of_set_Str:
  "sorted_list_of_set (set (map Str ks)) = map Str (sorted_list_of_set (set ks))"
proof (rule sorted_distinct_set_unique)
  show "sorted (map Str (sorted_list_of_set (set ks)))"
    using sorted_sorted_list_of_set[of "set ks"]
    by (simp add: sorted_map Str_le_iff)
  show "distinct (map Str (sorted_list_of_set (set ks)))"
    by (simp add: distinct_map inj_on_def)
qed simp_all

lemma group_key_Str: "map (\<lambda>r. group_key (Str (f r))) xs = map Str (map f xs)"
  by (simp add: group_key_def)

lemma pharm_agg_Inr:
  assumes "pharm_agg file = Inr agg"
  shows "\<exists>df ids. load_pharmacology_excel file = Inr df
           \<and> getitem df (Str ''Ligand CAS RN'') = Inr ids
           \<and> join_keys file = Inr (map Str (map cas_norm_of ids))
           \<and> group_keys file = Inr (map Str (sorted_list_of_set (set (map cas_norm_of ids))))
           \<and> columns agg = Str ''cas_norm'' # remove1 (Str ''cas_norm'') (columns df)
           \<and> length (rows agg) = length (sorted_list_of_set (set (map cas_norm_of ids)))"
proof -
  from assms obtain pharm where pharm: "pharm_df file = Inr pharm"
    and agg: "aggregate_pharmacology_by_cas pharm = Inr agg"
    by (auto simp: pharm_agg_def bind_Inr_iff)
  from pharm_df_Inr[OF pharm] obtain df ids where load: "load_pharmacology_excel file = Inr df"
    and ids: "getitem df (Str ''Ligand CAS RN'') = Inr ids"
    and set: "pharm = setitem df (Str ''cas_norm'') (map (\<lambda>c. Str (cas_norm_of c)) ids)"
    and keys: "getitem pharm (Str ''cas_norm'') = Inr (map (\<lambda>c. Str (cas_norm_of c)) ids)"
    by blast
  have cols: "columns pharm = (if Str ''cas_norm'' \<in> set (columns df) then columns df
                               else columns df @ [Str ''cas_norm''])"
    by (simp add: set columns_setitem)
  then have mem: "Str ''cas_norm'' \<in> set (columns pharm)" by simp
  with agg have grp: "groupby_agg pharm (Str ''cas_norm'') agg_unique = Inr agg"
    by (simp add: aggregate_pharmacology_by_cas_def)
  from groupby_agg_Inr[OF grp] obtain i where i: "index_of (Str ''cas_norm'') (columns pharm) = Some i"
    and c: "columns agg = Str ''cas_norm'' # remove1 (Str ''cas_norm'') (columns pharm)"
    and g: "getitem agg (Str ''cas_norm'') =
              Inr (sorted_list_of_set (set (map (\<lambda>r. group_key (r ! i)) (rows pharm))))"
    and l: "length (rows agg) =
              length (sorted_list_of_set (set (map (\<lambda>r. group_key (r ! i)) (rows pharm))))"
    by blast
  from keys i have col: "map (\<lambda>r. r ! i) (rows pharm) = map (\<lambda>c. Str (cas_norm_of c)) ids"
    by (simp add: getitem_def)
  have "map (\<lambda>r. group_key (r ! i)) (rows pharm) = map group_key (map (\<lambda>r. r ! i) (rows pharm))"
    by simp
  also have "\<dots> = map Str (map cas_norm_of ids)"
    unfolding col by (simp add: group_key_def)
  finally have gk: "sorted_list_of_set (set (map (\<lambda>r. group_key (r ! i)) (rows pharm))) =
      map Str (sorted_list_of_set (set (map cas_norm_of ids)))"
    by (simp only: sorted_list_of_set_Str)
  have "join_keys file = Inr (map Str (map cas_norm_of ids))"
    using pharm keys by (simp add: join_keys_def comp_def)
  moreover have "group_keys file = Inr (map Str (sorted_list_of_set (set (map cas_norm_of ids))))"
    using assms g gk by (simp add: group_keys_def)
  moreover have "columns agg = Str ''cas_norm'' # remove1 (Str ''cas_norm'') (columns df)"
    unfolding c cols by (simp add: remove1_append remove1_idem)
  moreover have "length (rows agg) = length (sorted_list_of_set (set (map cas_norm_of ids)))"
    unfolding l gk by (simp only: length_map)
  ultimately show ?thesis using load ids by blast
qed

subsection \<open>The example upload, evaluated\<close>

lemma pharm_agg_ex_sheet: "pharm_agg ex_sheet = Inr ex_sheet_agg"
  by code_simp

section \<open>The claims\<close>

text \<open>
  C7. For every group of the aggregated pharmacology table and every aggregated column,
  the value is what the specification describes: the group's values of the column in row
  order, nulls dropped, cast to string, each kept at its first occurrence, joined with
  \<^verbatim>\<open>" | "\<close>; it is null (and not an empty string) exactly when the group has no non-null
  value. The values \<^verbatim>\<open>["5", "5", "7", null]\<close> give \<^verbatim>\<open>"5 | 7"\<close>.
\<close>

theorem aggregation_is_first_occurrence_join:
  assumes "Str ''cas_norm'' \<in> set (columns df)"
    and "aggregate_pharmacology_by_cas df = Inr agg"
  shows "agg_unique series = spec_aggregate series
    \<and> (isna (agg_unique series) \<longleftrightarrow> filter (\<lambda>c. \<not> isna c) series = [])
    \<and> agg_unique [Str ''5'', Str ''5'', Str ''7'', NaN] = Str ''5 | 7''
    \<and> (\<exists>i. index_of (Str ''cas_norm'') (columns df) = Some i \<and>
           rows agg = map (\<lambda>k. k # map (\<lambda>j. spec_aggregate (map (\<lambda>r. r ! j)
                             (filter (\<lambda>r. group_key (r ! i) = k) (rows df))))
                           (drop_nth i [0..<length (columns df)]))
                        (sorted_list_of_set (set (map (\<lambda>r. group_key (r ! i)) (rows df)))))"
proof -
  have spec: "agg_unique vs = spec_aggregate vs" for vs
    by (simp add: agg_unique_def spec_aggregate_def unique_first_occurrences Let_def)
  have null: "isna (agg_unique series) \<longleftrightarrow> filter (\<lambda>c. \<not> isna c) series = []"
    by (simp add: agg_unique_def Let_def unique_Nil_iff)
  have example: "agg_unique [Str ''5'', Str ''5'', Str ''7'', NaN] = Str ''5 | 7''"
    by (simp add: agg_unique_def unique_def)
  have eq: "agg_unique = spec_aggregate"
    by (rule ext) (rule spec)
  obtain i where i: "index_of (Str ''cas_norm'') (columns df) = Some i"
    using assms(1) by (cases "index_of (Str ''cas_norm'') (columns df)") (auto simp: index_of_None_iff)
  from assms have "groupby_agg df (Str ''cas_norm'') spec_aggregate = Inr agg"
    by (simp add: aggregate_pharmacology_by_cas_def eq)
  with i have table: "\<exists>i. index_of (Str ''cas_norm'') (columns df) = Some i \<and>
           rows agg = map (\<lambda>k. k # map (\<lambda>j. spec_aggregate (map (\<lambda>r. r ! j)
                             (filter (\<lambda>r. group_key (r ! i) = k) (rows df))))
                           (drop_nth i [0..<length (columns df)]))
                        (sorted_list_of_set (set (map (\<lambda>r. group_key (r ! i)) (rows df))))"
    by (auto simp: groupby_agg_def Let_def)
  show ?thesis
    using spec null example table by blast
qed

theorem aggregation_is_first_occurrence_join_witness:
  "Str ''cas_norm'' \<in> set (columns ex_pharm)
   \<and> aggregate_pharmacology_by_cas ex_pharm = Inr ex_agg
   \<and> agg_unique [Str ''5'', NaN, Str ''5''] = spec_aggregate [Str ''5'', NaN, Str ''5'']
   \<and> rows ex_agg = [[Str ''50-00-0'', Str ''50-00-0  | 50-00-0'', Str ''5 | 7''],
                     [Str ''64-17-5'', Str ''64-17-5'', Str ''7'']]"
proof -
  have h1: "Str ''cas_norm'' \<in> set (columns ex_pharm)"
    by (simp add: ex_pharm_def)
  have h2: "aggregate_pharmacology_by_cas ex_pharm = Inr ex_agg"
    by code_simp
  have h3: "rows ex_agg = [[Str ''50-00-0'', Str ''50-00-0  | 50-00-0'', Str ''5 | 7''],
                           [Str ''64-17-5'', Str ''64-17-5'', Str ''7'']]"
    by (simp add: ex_agg_def)
  from aggregation_is_first_occurrence_join [OF h1 h2, of "[Str ''5'', NaN, Str ''5'']"]
  have "agg_unique [Str ''5'', NaN, Str ''5''] = spec_aggregate [Str ''5'', NaN, Str ''5'']"
    by (rule conjunct1)
  with h1 h2 h3 show ?thesis by blast
qed

text \<open>
  C2. The claim says that a sheet with no \<^verbatim>\<open>Ligand CAS RN\<close> cell in its first column is
  reported and skipped, and that the full merged table is still produced. In the code the
  run ends with the \<^verbatim>\<open>IndexError\<close> of \<^verbatim>\<open>load_pharmacology_excel\<close> instead, whatever the
  structure records are: line 186 calls it outside any \<^verbatim>\<open>try\<close>, whereas the same call for
  the sidebar (line 72) is inside one.
\<close>

theorem missing_header_ends_run_with_IndexError:
  assumes "list_all (\<lambda>r. r = [] \<or> hd r \<noteq> Str ''Ligand CAS RN'') sheet"
    and "all_mols files \<noteq> []"
  shows "main_logic files (Some sheet) selected_param = Inl IndexError"
proof -
  from assms(2) have "files \<noteq> []"
    by (auto simp: all_mols_def)
  with assms show ?thesis
    by (simp add: main_logic_def pharm_df_def load_without_header Let_def)
qed

theorem missing_header_ends_run_with_IndexError_witness:
  "list_all (\<lambda>r. r = [] \<or> hd r \<noteq> Str ''Ligand CAS RN'') ex_sheet_no_header
   \<and> all_mols ex_files \<noteq> []
   \<and> main_logic ex_files (Some ex_sheet_no_header) (Some ''IC50'') = Inl IndexError
   \<and> main_logic ex_files None (Some ''IC50'') = Inr (Tables (sdf_df (all_mols ex_files)) None)"
proof -
  have h1: "list_all (\<lambda>r. r = [] \<or> hd r \<noteq> Str ''Ligand CAS RN'') ex_sheet_no_header"
    by (simp add: ex_sheet_no_header_def)
  have h2: "all_mols ex_files \<noteq> []"
    by (simp add: all_mols_def ex_files_def)
  have h3: "main_logic ex_files None (Some ''IC50'') = Inr (Tables (sdf_df (all_mols ex_files)) None)"
    using h2 by (auto simp: main_logic_def Let_def all_mols_def)
  from h1 h2 h3 missing_header_ends_run_with_IndexError [OF h1 h2, of "Some ''IC50''"]
  show ?thesis by blast
qed

text \<open>
  C4, as the code has it. The groups of the aggregated table are emitted in ascending
  order of their join key (\<^verbatim>\<open>groupby\<close> sorts its keys), each distinct key once, and not
  in the order in which the keys first occur in the sheet. Every join key is a string,
  and strings are ordered byte by byte.
\<close>

theorem groups_are_emitted_in_sorted_key_order:
  assumes "pharm_agg file = Inr agg"
  shows "\<exists>ks. join_keys file = Inr (map Str ks)
           \<and> group_keys file = Inr (map Str (sorted_list_of_set (set ks)))"
  using pharm_agg_Inr [OF assms] by blast

theorem groups_are_emitted_in_sorted_key_order_witness:
  "pharm_agg ex_sheet = Inr ex_sheet_agg
   \<and> (\<exists>ks. join_keys ex_sheet = Inr (map Str ks)
           \<and> group_keys ex_sheet = Inr (map Str (sorted_list_of_set (set ks))))"
  using pharm_agg_ex_sheet groups_are_emitted_in_sorted_key_order [OF pharm_agg_ex_sheet]
  by (rule conjI)

text \<open>
  C4 as stated fails: in the example sheet the key \<^verbatim>\<open>64-17-5\<close> occurs before \<^verbatim>\<open>50-00-0\<close>,
  and the groups are emitted with \<^verbatim>\<open>50-00-0\<close> first.
\<close>

theorem groups_in_first_occurrence_order_counterexample:
  "group_keys ex_sheet = Inr [Str ''50-00-0'', Str ''64-17-5'', Str ''nan'']
   \<and> map_sum id unique (join_keys ex_sheet) = Inr [Str ''64-17-5'', Str ''50-00-0'', Str ''nan'']"
  by code_simp

text \<open>
  C5, as the code has it. The aggregated table has one row per distinct join key. Its
  columns are the join key column followed by every column of the sheet other than a
  column labelled \<^verbatim>\<open>cas_norm\<close>, in the sheet's order: the identifier column
  \<^verbatim>\<open>Ligand CAS RN\<close> is aggregated like the others and is not left out.
\<close>

theorem aggregated_table_keeps_identifier_column:
  assumes "pharm_agg file = Inr agg"
  shows "\<exists>df jk gk. load_pharmacology_excel file = Inr df
           \<and> columns agg = Str ''cas_norm'' # remove1 (Str ''cas_norm'') (columns df)
           \<and> Str ''Ligand CAS RN'' \<in> set (columns agg)
           \<and> join_keys file = Inr jk \<and> group_keys file = Inr gk
           \<and> distinct gk \<and> set gk = set jk \<and> length (rows agg) = length gk"
proof -
  from pharm_agg_Inr [OF assms] obtain df ids where load: "load_pharmacology_excel file = Inr df"
    and jk: "join_keys file = Inr (map Str (map cas_norm_of ids))"
    and gk: "group_keys file = Inr (map Str (sorted_list_of_set (set (map cas_norm_of ids))))"
    and cols: "columns agg = Str ''cas_norm'' # remove1 (Str ''cas_norm'') (columns df)"
    and len: "length (rows agg) = length (sorted_list_of_set (set (map cas_norm_of ids)))"
    by blast
  let ?gk = "map Str (sorted_list_of_set (set (map cas_norm_of ids)))"
  have "Str ''Ligand CAS RN'' \<in> set (columns df)"
    using load_pharmacology_excel_Inr [OF load] by (auto dest: index_of_Some_mem)
  then have "Str ''Ligand CAS RN'' \<in> set (columns agg)"
    by (simp add: cols)
  moreover have "distinct ?gk"
    by (simp add: distinct_map inj_on_def)
  moreover have "set ?gk = set (map Str (map cas_norm_of ids))"
    by (simp add: image_image)
  moreover have "length (rows agg) = length ?gk"
    by (simp add: len)
  ultimately show ?thesis
    using load jk gk cols by blast
qed

theorem aggregated_table_keeps_identifier_column_witness:
  "pharm_agg ex_sheet = Inr ex_sheet_agg
   \<and> (\<exists>df jk gk. load_pharmacology_excel ex_sheet = Inr df
           \<and> columns ex_sheet_agg = Str ''cas_norm'' # remove1 (Str ''cas_norm'') (columns df)
           \<and> Str ''Ligand CAS RN'' \<in> set (columns ex_sheet_agg)
           \<and> join_keys ex_sheet = Inr jk \<and> group_keys ex_sheet = Inr gk
           \<and> distinct gk \<and> set gk = set jk \<and> length (rows ex_sheet_agg) = length gk)"
  using pharm_agg_ex_sheet aggregated_table_keeps_identifier_column [OF pharm_agg_ex_sheet]
  by (rule conjI)

text \<open>
  C5 as stated fails: the aggregated table of the example sheet has the column
  \<^verbatim>\<open>Ligand CAS RN\<close>.
\<close>

theorem aggregated_columns_exclude_identifier_counterexample:
  "map_sum id columns (pharm_agg ex_sheet) =
     Inr [Str ''cas_norm'', Str ''Ligand CAS RN'', Str ''Parameter'', Str ''Value'', Str ''name'']"
  by code_simp

end
